theory Spec2Isabelle
  imports Main
begin

section \<open>The chain flow of package chain (flow.go)\<close>

text \<open>
  A flow is a doubly linked chain of nodes behind a root sentinel, together with a map
  from recipients to their current node. The operations of flow.go are modelled over an
  explicit store: nodes and flows live at addresses, a pointer is an optional address
  (\<open>None\<close> is Go's \<open>nil\<close>), and two pointers are equal when their addresses are.
\<close>

subsection \<open>Values of the transport library\<close>

text \<open>
  The transport library (telebot) is not part of the package. A \<open>tb.Recipient\<close> is an
  interface with the single method \<open>Recipient() string\<close>; a recipient is represented by
  that key. Of a \<open>tb.Message\<close> the flow reads the field \<open>Sender\<close> only, and only to take
  its key. What \<open>Recipient()\<close> does on a nil user or a nil recipient is the library's
  matter and not modelled: every sender and every recipient here has a key. A value of
  type \<open>interface{}\<close> is either an opaque value or a slice of such values.
\<close>

type_synonym recipient = string

record message =
  Sender :: recipient
  Text :: string

datatype iface = Val string | Slice "iface list"

datatype error = ErrChainIsEmpty | SendError string

subsection \<open>Nodes and flows\<close>

type_synonym addr = nat
type_synonym node_ref = "addr option"
type_synonym flow_ref = "addr option"
type_synonym bot_ref = "addr option"

text \<open>
  \<open>type FlowCallback func(e *Node, c *tb.Message) *Node\<close>. A value of a function type
  is a reference to code supplied by the caller of the package; it is represented by the
  identity of that code. What the code does when it is called is a parameter of
  \<open>Process\<close>, given below.
\<close>

type_synonym FlowCallback = nat

text \<open>
  \<open>sync.RWMutex\<close>: held by any number of readers or by one writer.
\<close>

record RWMutex =
  readers :: nat
  writer :: bool

text \<open>
  The fields of a node are those of the literal in \<open>NewFlow\<close>:
  \<open>&Node{id: flowId, flow: f, endpoint: nil, prev: nil, next: nil}\<close>.
\<close>

record Node =
  id_node :: string
  flow :: flow_ref
  endpoint :: "FlowCallback option"
  prev :: node_ref
  "next" :: node_ref

record Flow =
  flowId :: string
  root :: node_ref
  bot_flow :: bot_ref
  defaultLocale :: string
  positions :: "string \<rightharpoonup> node_ref"
  defaultHandler :: "FlowCallback option"
  mx :: RWMutex

subsection \<open>The store and the observable events\<close>

text \<open>
  What a call does besides returning: it applies a node's validator, invokes an endpoint
  or the default handler, calls the transport's \<open>Send\<close>, writes a key of the positions
  map or deletes one. Each of these is recorded, in order, in the trace of the store.
\<close>

datatype event =
    CheckEventCall addr message
  | EndpointCall addr node_ref message
  | DefaultHandlerCall addr node_ref message
  | SendCall bot_ref recipient string "iface list"
  | MapWrite addr recipient node_ref
  | MapDelete addr recipient

record world =
  flows :: "addr \<Rightarrow> Flow"
  nodes :: "addr \<Rightarrow> Node"
  free :: addr
  trace :: "event list"

definition emit :: "event \<Rightarrow> world \<Rightarrow> world" where
  "emit e w = w\<lparr>trace := trace w @ [e]\<rparr>"

text \<open>
  A panic of the Go runtime is a result of its own.
\<close>

datatype 'a outcome = Return 'a | Panic

subsection \<open>Parameters: what the package calls and does not define in flow.go\<close>

text \<open>
  Modelled from the spec: \<open>Node.CheckEvent\<close> is defined in a file of the package that is
  not among the sources. The specification describes it as applying the node's validator
  to the inbound message, pure and without side effects. It is a parameter of \<open>Process\<close>:
  a predicate of the node (by address) and the message.
\<close>

type_synonym check_event = "addr \<Rightarrow> message \<Rightarrow> bool"

text \<open>
  The code behind the callbacks. A callback is arbitrary Go code: besides returning a
  node it can reach the flow through its node and call the flow's exported methods
  (\<open>SetPosition\<close>, \<open>DeletePosition\<close>, \<open>Start\<close>, \<open>DefaultHandler\<close>). It is therefore a
  function of the store that returns a store. The claims speak of the node a callback
  returns; a callback that does not return is not modelled.
\<close>

type_synonym behaviour = "FlowCallback \<Rightarrow> node_ref \<Rightarrow> message \<Rightarrow> world \<Rightarrow> node_ref \<times> world"

text \<open>
  The transport's \<open>Bot.Send\<close> is external. What it does with the arguments it is handed
  is a parameter of \<open>Start\<close>: it returns an error (\<open>None\<close> is the nil error) or panics.
  The message it returns is discarded by \<open>Start\<close>.
\<close>

type_synonym transport =
  "bot_ref \<Rightarrow> recipient \<Rightarrow> string \<Rightarrow> iface list \<Rightarrow> error option outcome"

subsection \<open>Construction and getters\<close>

text \<open>
  \<open>NewFlow\<close> allocates the flow, leaving \<open>flowId\<close>, \<open>root\<close> and \<open>defaultLocale\<close> at
  their zero values, then allocates the root node and stores it in \<open>f.root\<close>.
\<close>

definition NewFlow :: "string \<Rightarrow> bot_ref \<Rightarrow> world \<Rightarrow> (addr \<times> error option) \<times> world" where
  "NewFlow flowId_arg b w =
     (let f = free w;
          w1 = w\<lparr>flows := (flows w)(f :=
                   \<lparr>flowId = [], root = None, bot_flow = b, defaultLocale = [],
                    positions = Map.empty, defaultHandler = None,
                    mx = \<lparr>readers = 0, writer = False\<rparr>\<rparr>),
                 free := Suc f\<rparr>;
          r = free w1;
          w2 = w1\<lparr>nodes := (nodes w1)(r :=
                    \<lparr>id_node = flowId_arg, flow = Some f, endpoint = None,
                     prev = None, next = None\<rparr>),
                  free := Suc r\<rparr>;
          w3 = w2\<lparr>flows := (flows w2)(f := (flows w2 f)\<lparr>root := Some r\<rparr>)\<rparr>
      in ((f, None), w3))"

definition GetFlowId :: "addr \<Rightarrow> world \<Rightarrow> string" where
  "GetFlowId f w = flowId (flows w f)"

definition GetBot :: "addr \<Rightarrow> world \<Rightarrow> bot_ref" where
  "GetBot f w = bot_flow (flows w f)"

definition GetRoot :: "addr \<Rightarrow> world \<Rightarrow> node_ref" where
  "GetRoot f w = root (flows w f)"

subsection \<open>The position store\<close>

text \<open>
  \<open>GetPosition\<close>, \<open>SetPosition\<close> and \<open>DeletePosition\<close> each take the lock, access the
  map and release the lock. The three definitions below are what such a call does from
  entry to return when no other call is in progress: the lock is free when it is taken
  and free again at the return, so \<open>mx\<close> is as before. The single steps of a call (lock,
  access, unlock), and calls of several workers that interleave, are the subject of the
  section on concurrent workers.

  Reading a Go map at an absent key yields the zero value and \<open>false\<close>; a present key may
  hold the nil node.
\<close>

definition GetPosition :: "addr \<Rightarrow> recipient \<Rightarrow> world \<Rightarrow> node_ref \<times> bool" where
  "GetPosition f of_r w =
     (case positions (flows w f) of_r of
        None \<Rightarrow> (None, False)
      | Some node \<Rightarrow> (node, True))"

definition SetPosition :: "addr \<Rightarrow> recipient \<Rightarrow> node_ref \<Rightarrow> world \<Rightarrow> world" where
  "SetPosition f of_r node w =
     emit (MapWrite f of_r node)
       (w\<lparr>flows := (flows w)(f :=
            (flows w f)\<lparr>positions := (positions (flows w f))(of_r \<mapsto> node)\<rparr>)\<rparr>)"

definition DeletePosition :: "addr \<Rightarrow> recipient \<Rightarrow> world \<Rightarrow> world" where
  "DeletePosition f of_r w =
     emit (MapDelete f of_r)
       (w\<lparr>flows := (flows w)(f :=
            (flows w f)\<lparr>positions := (positions (flows w f))(of_r := None)\<rparr>)\<rparr>)"

definition DefaultHandler :: "addr \<Rightarrow> FlowCallback option \<Rightarrow> world \<Rightarrow> addr \<times> world" where
  "DefaultHandler f ep w =
     (f, w\<lparr>flows := (flows w)(f := (flows w f)\<lparr>defaultHandler := ep\<rparr>)\<rparr>)"

subsection \<open>Start\<close>

text \<open>
  \<open>Start\<close> reads \<open>f.root.next\<close>, which panics when \<open>f.root\<close> is nil. With options it
  calls \<open>Send(to, text, options)\<close>: the slice is passed as one argument, it is not spread
  (\<open>options...\<close>). Without options it calls \<open>Send(to, text)\<close>. A panic of \<open>Send\<close> is a
  panic of \<open>Start\<close>. The position is written in place, under the lock, only when the
  error is nil.
\<close>

definition bot_Send ::
  "transport \<Rightarrow> bot_ref \<Rightarrow> recipient \<Rightarrow> string \<Rightarrow> iface list \<Rightarrow> world
     \<Rightarrow> error option outcome \<times> world" where
  "bot_Send send b to_r text args w = (send b to_r text args, emit (SendCall b to_r text args) w)"

definition Start ::
  "transport \<Rightarrow> addr \<Rightarrow> recipient \<Rightarrow> string \<Rightarrow> iface list \<Rightarrow> world
     \<Rightarrow> error option outcome \<times> world" where
  "Start send f to_r text options w =
     (case root (flows w f) of
        None \<Rightarrow> (Panic, w)
      | Some r \<Rightarrow>
          if next (nodes w r) = None then (Return (Some ErrChainIsEmpty), w)
          else
            let (res, w1) =
                  (if length options > 0
                   then bot_Send send (GetBot f w) to_r text [Slice options] w
                   else bot_Send send (GetBot f w) to_r text [] w)
            in (case res of
                  Panic \<Rightarrow> (Panic, w1)
                | Return err \<Rightarrow>
                    if err = None
                    then (Return err,
                          emit (MapWrite f to_r (next (nodes w1 r)))
                            (w1\<lparr>flows := (flows w1)(f :=
                               (flows w1 f)\<lparr>positions :=
                                  (positions (flows w1 f))(to_r \<mapsto> next (nodes w1 r))\<rparr>)\<rparr>))
                    else (Return err, w1)))"

subsection \<open>Process\<close>

text \<open>
  \<open>Process\<close> follows the source branch by branch. \<open>node.CheckEvent(m)\<close> is the left
  operand of \<open>||\<close> and is therefore always evaluated for a non-nil node. The endpoint is
  taken out of its option only in the branch where the test \<open>node.endpoint == nil\<close> has
  failed. The comparison \<open>next != node\<close> compares pointers. A callback runs on the store
  as it is when it is called and hands back the store it leaves; \<open>Process\<close> goes on
  from that store, with the node it read before the call.
\<close>

definition node_CheckEvent :: "check_event \<Rightarrow> addr \<Rightarrow> message \<Rightarrow> world \<Rightarrow> bool \<times> world" where
  "node_CheckEvent CheckEvent n m w = (CheckEvent n m, emit (CheckEventCall n m) w)"

definition call_endpoint ::
  "behaviour \<Rightarrow> FlowCallback \<Rightarrow> addr \<Rightarrow> message \<Rightarrow> world \<Rightarrow> node_ref \<times> world" where
  "call_endpoint invoke ep n m w = invoke ep (Some n) m (emit (EndpointCall n (Some n) m) w)"

definition call_defaultHandler ::
  "behaviour \<Rightarrow> FlowCallback \<Rightarrow> addr \<Rightarrow> addr \<Rightarrow> message \<Rightarrow> world \<Rightarrow> node_ref \<times> world" where
  "call_defaultHandler invoke h f n m w =
     invoke h (Some n) m (emit (DefaultHandlerCall f (Some n) m) w)"

definition Process ::
  "check_event \<Rightarrow> behaviour \<Rightarrow> addr \<Rightarrow> message option \<Rightarrow> world \<Rightarrow> bool \<times> world" where
  "Process CheckEvent invoke f m_ref w =
     (case m_ref of
        None \<Rightarrow> (False, w)
      | Some m \<Rightarrow>
          let sender = Sender m;
              (node, ok) = GetPosition f sender w
          in if \<not> ok then (False, w)
             else
               (case node of
                  None \<Rightarrow> (False, DeletePosition f sender w)
                | Some n \<Rightarrow>
                    let (valid, w1) = node_CheckEvent CheckEvent n m w
                    in if \<not> valid \<or> endpoint (nodes w1 n) = None
                       then
                         (case defaultHandler (flows w1 f) of
                            Some h \<Rightarrow>
                              let (nxt, w2) = call_defaultHandler invoke h f n m w1
                              in if nxt \<noteq> Some n
                                 then (True, SetPosition f sender nxt w2)
                                 else (True, w2)
                          | None \<Rightarrow> (False, w1))
                       else
                         let (nxt, w2) = call_endpoint invoke (the (endpoint (nodes w1 n))) n m w1
                         in if nxt \<noteq> Some n
                            then (True, SetPosition f sender nxt w2)
                            else (True, w2)))"

section \<open>Concurrent workers on the position store\<close>

text \<open>
  Several workers call \<open>GetPosition\<close>, \<open>SetPosition\<close> and \<open>DeletePosition\<close> on one
  flow. A call is three steps, as in the source: take the lock (\<open>RLock\<close> for
  \<open>GetPosition\<close>, \<open>Lock\<close> for the other two), access the map, release the lock
  (\<open>RUnlock\<close>, \<open>Unlock\<close>). The steps of different workers interleave in any order.
\<close>

subsection \<open>The steps of the lock\<close>






subsection \<open>Workers and their steps\<close>

















section \<open>A concrete flow: the chain root, A, B\<close>

text \<open>
  The flow lives at address 0, its root at 1, node A at 2 and node B at 3. The validator
  of every node accepts the messages with a non-empty text. There are three callbacks:
  callback 0 always moves on to B and is the endpoint of A; callback 1 keeps the user at
  the node it was called with and is the endpoint of B; callback 2 ends the conversation
  by calling \<open>DeletePosition\<close> of flow 0 for the sender and returns the node it was
  called with.
\<close>

definition ex_code :: behaviour where
  "ex_code cb e c w =
     (if cb = 0 then (Some 3, w)
      else if cb = 1 then (e, w)
      else (e, DeletePosition 0 (Sender c) w))"

definition ex_nodes :: "addr \<Rightarrow> Node" where
  "ex_nodes a =
     (if a = 1 then \<lparr>id_node = ''flow'', flow = Some 0, endpoint = None,
                      prev = None, next = Some 2\<rparr>
      else if a = 2 then \<lparr>id_node = ''A'', flow = Some 0, endpoint = Some 0,
                           prev = Some 1, next = Some 3\<rparr>
      else \<lparr>id_node = ''B'', flow = Some 0, endpoint = Some 1,
             prev = Some 2, next = None\<rparr>)"

definition ex_world :: "(string \<rightharpoonup> node_ref) \<Rightarrow> FlowCallback option \<Rightarrow> world" where
  "ex_world ps h =
     \<lparr>flows = (\<lambda>a. \<lparr>flowId = [], root = Some 1, bot_flow = Some 9, defaultLocale = [],
                     positions = ps, defaultHandler = h,
                     mx = \<lparr>readers = 0, writer = False\<rparr>\<rparr>),
      nodes = ex_nodes, free = 4, trace = []\<rparr>"

definition ex_blank :: world where
  "ex_blank =
     \<lparr>flows = (\<lambda>a. \<lparr>flowId = [], root = None, bot_flow = None, defaultLocale = [],
                     positions = Map.empty, defaultHandler = None,
                     mx = \<lparr>readers = 0, writer = False\<rparr>\<rparr>),
      nodes = (\<lambda>a. \<lparr>id_node = [], flow = None, endpoint = None, prev = None, next = None\<rparr>),
      free = 0, trace = []\<rparr>"

definition ex_check :: check_event where
  "ex_check n m = (Text m \<noteq> [])"

definition ex_hi :: message where
  "ex_hi = \<lparr>Sender = ''u1'', Text = ''hi''\<rparr>"

definition ex_silent :: message where
  "ex_silent = \<lparr>Sender = ''u1'', Text = []\<rparr>"

definition ex_send_ok :: transport where
  "ex_send_ok b to_r text args = Return None"

definition ex_send_fail :: transport where
  "ex_send_fail b to_r text args = Return (Some (SendError ''timeout''))"

text \<open>
  A transport that accepts option values only: handed anything else, here a slice, it
  panics; otherwise it sends and returns the nil error.
\<close>

fun is_Val :: "iface \<Rightarrow> bool" where
  "is_Val (Val s) = True"
| "is_Val (Slice xs) = False"

definition ex_send_strict :: transport where
  "ex_send_strict b to_r text args = (if list_all is_Val args then Return None else Panic)"


section \<open>Properties\<close>

text \<open>
  C7: for every id and bot, the flow returned by \<open>NewFlow\<close> has the empty string as its
  \<open>GetFlowId\<close>, the given id is the id of its root node, and the error result is nil.
\<close>

theorem NewFlow_flowId_empty:
  "GetFlowId (fst (fst (NewFlow i b w))) (snd (NewFlow i b w)) = []
   \<and> snd (fst (NewFlow i b w)) = None
   \<and> (\<exists>r. GetRoot (fst (fst (NewFlow i b w))) (snd (NewFlow i b w)) = Some r
          \<and> id_node (nodes (snd (NewFlow i b w)) r) = i)"
  by (simp add: NewFlow_def GetFlowId_def GetRoot_def Let_def)

theorem NewFlow_flowId_empty_witness:
  "GetFlowId (fst (fst (NewFlow ''signup'' (Some 9) ex_blank)))
      (snd (NewFlow ''signup'' (Some 9) ex_blank)) = []
   \<and> snd (fst (NewFlow ''signup'' (Some 9) ex_blank)) = None
   \<and> id_node (nodes (snd (NewFlow ''signup'' (Some 9) ex_blank)) 1) = ''signup''"
  using NewFlow_flowId_empty [of "''signup''" "Some 9" ex_blank]
  by (simp add: NewFlow_def GetFlowId_def GetRoot_def ex_blank_def Let_def)

text \<open>
  C1: let the sender of message \<open>m\<close> be at node \<open>n\<close>, let \<open>n\<close> have the endpoint \<open>ep\<close>
  and let \<open>CheckEvent\<close> accept \<open>m\<close> at \<open>n\<close>. Then \<open>Process\<close> returns true. After the
  validator it invokes the endpoint exactly once, with \<open>(n, m)\<close>: the endpoint runs on the
  store \<open>w1\<close>, whose trace has these two calls as its only new events, and leaves the
  store \<open>w2\<close>. After that \<open>Process\<close> writes the sender's position, to the returned
  node, exactly when that node is not \<open>n\<close> itself, and does nothing else; when the
  returned node is \<open>n\<close> it does not write the map, and flows and trace are as the endpoint
  left them. For an endpoint that leaves the store as it found it (\<open>w2 = w1\<close>), the last
  conjunct gives the whole effect of \<open>Process\<close> in terms of the store before the call.
\<close>

theorem Process_endpoint:
  assumes pos: "positions (flows w f) (Sender m) = Some (Some n)"
      and ep: "endpoint (nodes w n) = Some ep"
      and ok: "CheckEvent n m"
  shows "let w1 = w\<lparr>trace := trace w @ [CheckEventCall n m, EndpointCall n (Some n) m]\<rparr>;
             nxt = fst (invoke ep (Some n) m w1);
             w2 = snd (invoke ep (Some n) m w1)
         in fst (Process CheckEvent invoke f (Some m) w) = True
          \<and> trace (snd (Process CheckEvent invoke f (Some m) w)) =
              trace w2 @ (if nxt \<noteq> Some n then [MapWrite f (Sender m) nxt] else [])
          \<and> flows (snd (Process CheckEvent invoke f (Some m) w)) =
              (if nxt \<noteq> Some n
               then (flows w2)(f := (flows w2 f)\<lparr>positions :=
                       (positions (flows w2 f))(Sender m \<mapsto> nxt)\<rparr>)
               else flows w2)
          \<and> nodes (snd (Process CheckEvent invoke f (Some m) w)) = nodes w2
          \<and> (w2 = w1 \<longrightarrow>
               trace (snd (Process CheckEvent invoke f (Some m) w)) =
                 trace w @ [CheckEventCall n m, EndpointCall n (Some n) m]
                   @ (if nxt \<noteq> Some n then [MapWrite f (Sender m) nxt] else [])
               \<and> flows (snd (Process CheckEvent invoke f (Some m) w)) =
                   (if nxt \<noteq> Some n
                    then (flows w)(f := (flows w f)\<lparr>positions :=
                            (positions (flows w f))(Sender m \<mapsto> nxt)\<rparr>)
                    else flows w)
               \<and> nodes (snd (Process CheckEvent invoke f (Some m) w)) = nodes w)"
  using pos ep ok
  by (simp add: Process_def GetPosition_def node_CheckEvent_def call_endpoint_def
        SetPosition_def emit_def Let_def split_beta)

theorem Process_endpoint_witness:
  "fst (Process ex_check ex_code 0 (Some ex_hi) (ex_world [''u1'' \<mapsto> Some 2] None)) = True
   \<and> trace (snd (Process ex_check ex_code 0 (Some ex_hi) (ex_world [''u1'' \<mapsto> Some 2] None))) =
       [CheckEventCall 2 ex_hi, EndpointCall 2 (Some 2) ex_hi, MapWrite 0 ''u1'' (Some 3)]
   \<and> positions (flows (snd (Process ex_check ex_code 0 (Some ex_hi)
        (ex_world [''u1'' \<mapsto> Some 2] None))) 0) ''u1'' = Some (Some 3)"
  using Process_endpoint [of "ex_world [''u1'' \<mapsto> Some 2] None" 0 ex_hi 2 0 ex_check ex_code]
  by (simp add: ex_world_def ex_nodes_def ex_hi_def ex_check_def ex_code_def Let_def)

text \<open>
  C2: let the sender of \<open>m\<close> be at the non-nil node \<open>n\<close>, and let \<open>CheckEvent\<close> reject
  \<open>m\<close> at \<open>n\<close> or \<open>n\<close> have no endpoint. With a default handler \<open>h\<close>, \<open>Process\<close>
  returns true, invokes \<open>h\<close> exactly once, with \<open>(n, m)\<close>, on the store \<open>w1\<close> whose new
  events are the validator call and this call, and after the handler has returned (leaving
  \<open>w2\<close>) it writes the position only when the returned node is not \<open>n\<close>; for a handler
  that leaves the store as it found it, the last conjunct gives the effect in terms of
  the store before the call. Without a default handler \<open>Process\<close> returns false, invokes
  no handler, writes nothing and leaves the positions as they were.
\<close>

theorem Process_fallback:
  assumes pos: "positions (flows w f) (Sender m) = Some (Some n)"
      and bad: "\<not> CheckEvent n m \<or> endpoint (nodes w n) = None"
  shows "case defaultHandler (flows w f) of
           Some h \<Rightarrow>
             (let w1 = w\<lparr>trace := trace w @ [CheckEventCall n m, DefaultHandlerCall f (Some n) m]\<rparr>;
                  nxt = fst (invoke h (Some n) m w1);
                  w2 = snd (invoke h (Some n) m w1)
              in fst (Process CheckEvent invoke f (Some m) w) = True
               \<and> trace (snd (Process CheckEvent invoke f (Some m) w)) =
                   trace w2 @ (if nxt \<noteq> Some n then [MapWrite f (Sender m) nxt] else [])
               \<and> flows (snd (Process CheckEvent invoke f (Some m) w)) =
                   (if nxt \<noteq> Some n
                    then (flows w2)(f := (flows w2 f)\<lparr>positions :=
                            (positions (flows w2 f))(Sender m \<mapsto> nxt)\<rparr>)
                    else flows w2)
               \<and> (w2 = w1 \<longrightarrow>
                    trace (snd (Process CheckEvent invoke f (Some m) w)) =
                      trace w @ [CheckEventCall n m, DefaultHandlerCall f (Some n) m]
                        @ (if nxt \<noteq> Some n then [MapWrite f (Sender m) nxt] else [])
                    \<and> flows (snd (Process CheckEvent invoke f (Some m) w)) =
                        (if nxt \<noteq> Some n
                         then (flows w)(f := (flows w f)\<lparr>positions :=
                                 (positions (flows w f))(Sender m \<mapsto> nxt)\<rparr>)
                         else flows w)))
         | None \<Rightarrow>
             fst (Process CheckEvent invoke f (Some m) w) = False
             \<and> trace (snd (Process CheckEvent invoke f (Some m) w)) = trace w @ [CheckEventCall n m]
             \<and> flows (snd (Process CheckEvent invoke f (Some m) w)) = flows w"
  using pos bad
  by (auto simp add: Process_def GetPosition_def node_CheckEvent_def call_defaultHandler_def
        SetPosition_def emit_def Let_def split_beta split: option.splits)

theorem Process_fallback_witness:
  "fst (Process ex_check ex_code 0 (Some ex_silent) (ex_world [''u1'' \<mapsto> Some 2] (Some 1))) = True
   \<and> trace (snd (Process ex_check ex_code 0 (Some ex_silent)
        (ex_world [''u1'' \<mapsto> Some 2] (Some 1)))) =
       [CheckEventCall 2 ex_silent, DefaultHandlerCall 0 (Some 2) ex_silent]
   \<and> positions (flows (snd (Process ex_check ex_code 0 (Some ex_silent)
        (ex_world [''u1'' \<mapsto> Some 2] (Some 1)))) 0) ''u1'' = Some (Some 2)
   \<and> fst (Process ex_check ex_code 0 (Some ex_hi) (ex_world [''u1'' \<mapsto> Some 1] None)) = False
   \<and> positions (flows (snd (Process ex_check ex_code 0 (Some ex_hi)
        (ex_world [''u1'' \<mapsto> Some 1] None))) 0) ''u1'' = Some (Some 1)"
  using Process_fallback [of "ex_world [''u1'' \<mapsto> Some 2] (Some 1)" 0 ex_silent 2 ex_check ex_code]
        Process_fallback [of "ex_world [''u1'' \<mapsto> Some 1] None" 0 ex_hi 1 ex_check ex_code]
  by (simp add: ex_world_def ex_nodes_def ex_hi_def ex_silent_def ex_check_def ex_code_def Let_def)

text \<open>
  C3: let the chain of the flow be non-empty. When \<open>Send\<close> returns the nil error,
  \<open>Start\<close> returns nil and the recipient's position is \<open>root.next\<close> afterwards. When
  \<open>Send\<close> returns an error, \<open>Start\<close> returns that very error, the flows (and with them
  the positions map) are untouched, and no write or delete of the map has been added to
  the trace. (When \<open>Send\<close> panics, so does \<open>Start\<close>, and the flows are untouched.)
\<close>

theorem Start_send:
  assumes rt: "root (flows w f) = Some r"
      and ne: "next (nodes w r) \<noteq> None"
  shows "case send (bot_flow (flows w f)) to_r text
                (if options = [] then [] else [Slice options]) of
           Return None \<Rightarrow>
             fst (Start send f to_r text options w) = Return None
             \<and> positions (flows (snd (Start send f to_r text options w)) f) =
                 (positions (flows w f))(to_r \<mapsto> next (nodes w r))
             \<and> GetPosition f to_r (snd (Start send f to_r text options w)) =
                 (next (nodes w r), True)
         | Return (Some e) \<Rightarrow>
             fst (Start send f to_r text options w) = Return (Some e)
             \<and> flows (snd (Start send f to_r text options w)) = flows w
             \<and> [x \<leftarrow> trace (snd (Start send f to_r text options w)).
                  case x of MapWrite a k v \<Rightarrow> True | MapDelete a k \<Rightarrow> True | _ \<Rightarrow> False] =
               [x \<leftarrow> trace w.
                  case x of MapWrite a k v \<Rightarrow> True | MapDelete a k \<Rightarrow> True | _ \<Rightarrow> False]
         | Panic \<Rightarrow>
             fst (Start send f to_r text options w) = Panic
             \<and> flows (snd (Start send f to_r text options w)) = flows w"
  using rt ne
  by (auto simp add: Start_def bot_Send_def GetBot_def GetPosition_def emit_def Let_def
        split: option.splits outcome.splits)

theorem Start_send_witness:
  "fst (Start ex_send_ok 0 ''u1'' ''hi'' [] (ex_world Map.empty None)) = Return None
   \<and> GetPosition 0 ''u1'' (snd (Start ex_send_ok 0 ''u1'' ''hi'' [] (ex_world Map.empty None))) =
       (Some 2, True)
   \<and> fst (Start ex_send_fail 0 ''u1'' ''hi'' [] (ex_world Map.empty None)) =
       Return (Some (SendError ''timeout''))
   \<and> GetPosition 0 ''u1'' (snd (Start ex_send_fail 0 ''u1'' ''hi'' [] (ex_world Map.empty None))) =
       (None, False)"
  using Start_send [of "ex_world Map.empty None" 0 1 ex_send_ok "''u1''" "''hi''" "[]"]
        Start_send [of "ex_world Map.empty None" 0 1 ex_send_fail "''u1''" "''hi''" "[]"]
  by (simp add: ex_world_def ex_nodes_def ex_send_ok_def ex_send_fail_def GetPosition_def)

text \<open>
  C4: when the chain is empty (\<open>root.next\<close> is nil), \<open>Start\<close> returns
  \<open>ErrChainIsEmpty\<close> and leaves the whole store as it was: the trace has no new event,
  so \<open>Send\<close> was not called, and the positions map is unchanged.
\<close>

theorem Start_chain_empty:
  assumes rt: "root (flows w f) = Some r"
      and em: "next (nodes w r) = None"
  shows "Start send f to_r text options w = (Return (Some ErrChainIsEmpty), w)"
  using rt em by (simp add: Start_def)

theorem Start_chain_empty_witness:
  "Start ex_send_ok 0 ''u1'' ''hi'' [Val ''markup''] (snd (NewFlow ''f'' None ex_blank)) =
     (Return (Some ErrChainIsEmpty), snd (NewFlow ''f'' None ex_blank))"
  using Start_chain_empty [of "snd (NewFlow ''f'' None ex_blank)" 0 1 ex_send_ok "''u1''" "''hi''"
          "[Val ''markup'']"]
  by (simp add: NewFlow_def ex_blank_def Let_def)

text \<open>
  C5: when the sender of \<open>m\<close> is tracked at the nil node (the key is present and holds
  nil), \<open>Process\<close> returns false and deletes the sender's entry, which is its only
  effect. A second \<open>Process\<close>, on any message of the same sender, returns false again
  and changes nothing.
\<close>

theorem Process_nil_position:
  assumes pos: "positions (flows w f) (Sender m) = Some None"
      and same: "Sender m' = Sender m"
  shows "fst (Process CheckEvent invoke f (Some m) w) = False
       \<and> snd (Process CheckEvent invoke f (Some m) w) = DeletePosition f (Sender m) w
       \<and> positions (flows (snd (Process CheckEvent invoke f (Some m) w)) f) =
           (positions (flows w f))(Sender m := None)
       \<and> trace (snd (Process CheckEvent invoke f (Some m) w)) = trace w @ [MapDelete f (Sender m)]
       \<and> Process CheckEvent invoke f (Some m') (snd (Process CheckEvent invoke f (Some m) w)) =
           (False, snd (Process CheckEvent invoke f (Some m) w))"
  using pos same
  by (simp add: Process_def GetPosition_def DeletePosition_def emit_def Let_def)

theorem Process_nil_position_witness:
  "fst (Process ex_check ex_code 0 (Some ex_hi) (ex_world [''u1'' \<mapsto> None] None)) = False
   \<and> positions (flows (snd (Process ex_check ex_code 0 (Some ex_hi)
        (ex_world [''u1'' \<mapsto> None] None))) 0) ''u1'' = None
   \<and> fst (Process ex_check ex_code 0 (Some ex_silent)
        (snd (Process ex_check ex_code 0 (Some ex_hi) (ex_world [''u1'' \<mapsto> None] None)))) = False"
  using Process_nil_position [of "ex_world [''u1'' \<mapsto> None] None" 0 ex_hi ex_silent ex_check ex_code]
  by (simp add: ex_world_def ex_hi_def ex_silent_def Process_def GetPosition_def
        DeletePosition_def emit_def)

text \<open>
  C6: when the message is nil, or the sender of the message has no entry in the positions
  map, \<open>Process\<close> returns false and the store is exactly as before: no mutation, and no
  event in the trace, hence no validator, endpoint or default handler was invoked.
\<close>

theorem Process_no_position:
  assumes "m_ref = None \<or> (\<exists>m. m_ref = Some m \<and> positions (flows w f) (Sender m) = None)"
  shows "Process CheckEvent invoke f m_ref w = (False, w)"
  using assms
  by (auto simp add: Process_def GetPosition_def Let_def)

theorem Process_no_position_witness:
  "Process ex_check ex_code 0 None (ex_world [''u1'' \<mapsto> Some 2] (Some 1)) =
     (False, ex_world [''u1'' \<mapsto> Some 2] (Some 1))
   \<and> Process ex_check ex_code 0 (Some ex_hi) (ex_world [''u2'' \<mapsto> Some 2] (Some 1)) =
     (False, ex_world [''u2'' \<mapsto> Some 2] (Some 1))"
  using Process_no_position [of None "ex_world [''u1'' \<mapsto> Some 2] (Some 1)" 0 ex_check ex_code]
        Process_no_position [of "Some ex_hi" "ex_world [''u2'' \<mapsto> Some 2] (Some 1)" 0 ex_check ex_code]
  by (simp add: ex_world_def ex_hi_def)

text \<open>
  C8, as stated, does not hold: a handler that returns the current node may itself have
  changed the sender's position. In the example the sender \<open>u1\<close> is at A, the message is
  rejected by the validator, and the default handler is callback 2, which deletes the
  sender's position and returns A. \<open>Process\<close> returns true and, the returned node being
  the current one, writes nothing; \<open>GetPosition\<close> gave \<open>(A, true)\<close> before the call and
  gives \<open>(nil, false)\<close> after it.
\<close>

theorem Process_same_node_counterexample:
  "positions (flows (ex_world [''u1'' \<mapsto> Some 2] (Some 2)) 0) (Sender ex_silent) = Some (Some 2)
   \<and> \<not> ex_check 2 ex_silent
   \<and> defaultHandler (flows (ex_world [''u1'' \<mapsto> Some 2] (Some 2)) 0) = Some 2
   \<and> fst (ex_code 2 (Some 2) ex_silent
        ((ex_world [''u1'' \<mapsto> Some 2] (Some 2))
           \<lparr>trace := [CheckEventCall 2 ex_silent, DefaultHandlerCall 0 (Some 2) ex_silent]\<rparr>)) = Some 2
   \<and> fst (Process ex_check ex_code 0 (Some ex_silent) (ex_world [''u1'' \<mapsto> Some 2] (Some 2))) = True
   \<and> GetPosition 0 ''u1'' (ex_world [''u1'' \<mapsto> Some 2] (Some 2)) = (Some 2, True)
   \<and> GetPosition 0 ''u1''
        (snd (Process ex_check ex_code 0 (Some ex_silent) (ex_world [''u1'' \<mapsto> Some 2] (Some 2)))) =
       (None, False)"
  by (simp add: Process_def GetPosition_def node_CheckEvent_def call_defaultHandler_def
        DeletePosition_def emit_def ex_world_def ex_nodes_def ex_silent_def ex_check_def
        ex_code_def Let_def)

text \<open>
  C8, amended: let the sender of \<open>m\<close> be at node \<open>n\<close>, and let the handler that
  \<open>Process\<close> invokes (the endpoint of \<open>n\<close> when \<open>m\<close> is accepted and \<open>n\<close> has one, the
  default handler otherwise) return \<open>n\<close> itself and leave a recipient's entry in the
  positions map as it found it. Then \<open>GetPosition\<close> for that recipient gives after the
  call what it gave before the call.
\<close>

theorem Process_same_node:
  assumes pos: "positions (flows w f) (Sender m) = Some (Some n)"
      and same:
        "(CheckEvent n m
            \<and> (\<exists>ep. endpoint (nodes w n) = Some ep
                 \<and> fst (invoke ep (Some n) m
                      (w\<lparr>trace := trace w @ [CheckEventCall n m, EndpointCall n (Some n) m]\<rparr>)) = Some n
                 \<and> positions (flows (snd (invoke ep (Some n) m
                      (w\<lparr>trace := trace w @ [CheckEventCall n m, EndpointCall n (Some n) m]\<rparr>))) f) to_r
                   = positions (flows w f) to_r))
         \<or> ((\<not> CheckEvent n m \<or> endpoint (nodes w n) = None)
            \<and> (\<exists>h. defaultHandler (flows w f) = Some h
                 \<and> fst (invoke h (Some n) m
                      (w\<lparr>trace := trace w @ [CheckEventCall n m, DefaultHandlerCall f (Some n) m]\<rparr>)) = Some n
                 \<and> positions (flows (snd (invoke h (Some n) m
                      (w\<lparr>trace := trace w @ [CheckEventCall n m, DefaultHandlerCall f (Some n) m]\<rparr>))) f) to_r
                   = positions (flows w f) to_r))"
  shows "fst (Process CheckEvent invoke f (Some m) w) = True
       \<and> GetPosition f to_r (snd (Process CheckEvent invoke f (Some m) w)) = GetPosition f to_r w"
  using pos same
  by (auto simp add: Process_def GetPosition_def node_CheckEvent_def call_endpoint_def
        call_defaultHandler_def emit_def Let_def split_beta)

theorem Process_same_node_witness:
  "GetPosition 0 ''u1''
     (snd (Process ex_check ex_code 0 (Some ex_hi) (ex_world [''u1'' \<mapsto> Some 3] None))) =
     (Some 3, True)
   \<and> GetPosition 0 ''u1'' (snd (Process ex_check ex_code 0 (Some ex_silent)
        (ex_world [''u1'' \<mapsto> Some 2] (Some 1)))) = (Some 2, True)
   \<and> GetPosition 0 ''u2'' (snd (Process ex_check ex_code 0 (Some ex_silent)
        (ex_world [''u1'' \<mapsto> Some 2, ''u2'' \<mapsto> Some 3] (Some 2)))) = (Some 3, True)"
  using Process_same_node [of "ex_world [''u1'' \<mapsto> Some 3] None" 0 ex_hi 3 ex_check ex_code "''u1''"]
        Process_same_node [of "ex_world [''u1'' \<mapsto> Some 2] (Some 1)" 0 ex_silent 2 ex_check ex_code "''u1''"]
        Process_same_node [of "ex_world [''u1'' \<mapsto> Some 2, ''u2'' \<mapsto> Some 3] (Some 2)" 0 ex_silent 2
          ex_check ex_code "''u2''"]
  by (simp add: ex_world_def ex_nodes_def ex_hi_def ex_silent_def ex_check_def ex_code_def
        GetPosition_def DeletePosition_def emit_def)

text \<open>A list is never the one-element list that holds it as a slice.\<close>

lemma Slice_not_itself: "[Slice xs] \<noteq> xs"
proof
  assume "[Slice xs] = xs"
  then have "size_list size [Slice xs] = size_list size xs" by simp
  then show False by simp
qed

text \<open>
  C9: \<open>Start\<close> does not hand its options to \<open>Send\<close>. On a non-empty chain and with
  one or more options, the one \<open>Send\<close> call of \<open>Start\<close> has a single further argument,
  the slice of the options itself (\<open>Send(to, text, options)\<close>, where
  \<open>Send(to, text, options...)\<close> would forward them), which is never the list of options
  \<open>Start\<close> was given; and \<open>Start\<close> returns, or panics, as \<open>Send\<close> does on that
  argument. In the example a transport that accepts option values only panics on the
  slice, so that \<open>Start\<close> panics and sets no position, where the same transport handed
  the options themselves returns nil. Without options \<open>Send\<close> is called with the
  recipient and the text only.
\<close>

theorem Start_options_not_spread:
  assumes rt: "root (flows w f) = Some r"
      and ne: "next (nodes w r) \<noteq> None"
      and opts: "options \<noteq> []"
  shows "[x \<leftarrow> drop (length (trace w)) (trace (snd (Start send f to_r text options w))).
            case x of SendCall b k t a \<Rightarrow> True | _ \<Rightarrow> False] =
         [SendCall (bot_flow (flows w f)) to_r text [Slice options]]
       \<and> [Slice options] \<noteq> options
       \<and> fst (Start send f to_r text options w) =
           send (bot_flow (flows w f)) to_r text [Slice options]"
  using rt ne opts Slice_not_itself [of options]
  by (auto simp add: Start_def bot_Send_def GetBot_def emit_def Let_def
        split: option.splits outcome.splits)

theorem Start_options_not_spread_witness:
  "[x \<leftarrow> trace (snd (Start ex_send_strict 0 ''u1'' ''hi'' [Val ''markup'', Val ''silent'']
                      (ex_world Map.empty None))).
      case x of SendCall b k t a \<Rightarrow> True | _ \<Rightarrow> False] =
     [SendCall (Some 9) ''u1'' ''hi'' [Slice [Val ''markup'', Val ''silent'']]]
   \<and> fst (Start ex_send_strict 0 ''u1'' ''hi'' [Val ''markup'', Val ''silent'']
            (ex_world Map.empty None)) = Panic
   \<and> GetPosition 0 ''u1'' (snd (Start ex_send_strict 0 ''u1'' ''hi'' [Val ''markup'', Val ''silent'']
            (ex_world Map.empty None))) = (None, False)
   \<and> ex_send_strict (Some 9) ''u1'' ''hi'' [Val ''markup'', Val ''silent''] = Return None
   \<and> fst (Start ex_send_strict 0 ''u1'' ''hi'' [] (ex_world Map.empty None)) = Return None"
  using Start_options_not_spread [of "ex_world Map.empty None" 0 1
          "[Val ''markup'', Val ''silent'']" ex_send_strict "''u1''" "''hi''"]
  by (simp add: ex_world_def ex_nodes_def ex_send_strict_def Start_def bot_Send_def GetBot_def
        GetPosition_def emit_def)

subsection \<open>Concurrent calls of the position store\<close>




lemma mx_SetPosition [simp]: "mx (flows (SetPosition f r v w) f) = mx (flows w f)"
  by (simp add: SetPosition_def emit_def)

lemma mx_DeletePosition [simp]: "mx (flows (DeletePosition f r w) f) = mx (flows w f)"
  by (simp add: DeletePosition_def emit_def)








end
